theory Spec2Isabelle
  imports Complex_Main "HOL-Library.AList" "HOL-Library.Multiset"
begin

section \<open>Python values and exceptions\<close>

text \<open>
  Messages and option values are Python objects. They are modelled as trees: a dict is an
  association list read with \<^const>\<open>map_of\<close> (keys are strings, the first binding of a key
  is the one seen), a list is a HOL list. Floats are modelled as reals, so rounding and
  overflow of IEEE doubles are outside the model. Sets, tuples and dicts with non-string keys
  are not represented.
\<close>

datatype pyval =
    PNone
  | PBool bool
  | PInt int
  | PFloat real
  | PStr string
  | PList "pyval list"
  | PDict "(string \<times> pyval) list"

datatype py_error =
    KeyError
  | TypeError
  | AttributeError
  | IndexError
  | ValueError
  | FileNotFoundError
  | OSError
  | ImportError
  | NotModelled

text \<open>A raise is \<open>Inl\<close>; \<open>bindE\<close> sequences two computations, stopping at the first raise.\<close>

definition bindE :: "py_error + 'a \<Rightarrow> ('a \<Rightarrow> py_error + 'b) \<Rightarrow> py_error + 'b" where
  "bindE r f = (case r of Inl e \<Rightarrow> Inl e | Inr v \<Rightarrow> f v)"

text \<open>\<open>d[k]\<close> for a string key: only a dict accepts it.\<close>

fun getitem :: "pyval \<Rightarrow> string \<Rightarrow> py_error + pyval" where
  "getitem (PDict d) k = (case map_of d k of None \<Rightarrow> Inl KeyError | Some v \<Rightarrow> Inr v)"
| "getitem _ k = Inl TypeError"

text \<open>\<open>d[k] = v\<close> for a string key.\<close>

fun setitem :: "pyval \<Rightarrow> string \<Rightarrow> pyval \<Rightarrow> py_error + pyval" where
  "setitem (PDict d) k v = Inr (PDict (AList.update k v d))"
| "setitem _ k v = Inl TypeError"

fun is_prefix :: "string \<Rightarrow> string \<Rightarrow> bool" where
  "is_prefix [] ys = True"
| "is_prefix (x # xs) [] = False"
| "is_prefix (x # xs) (y # ys) = (x = y \<and> is_prefix xs ys)"

fun is_substr :: "string \<Rightarrow> string \<Rightarrow> bool" where
  "is_substr n [] = (n = [])"
| "is_substr n (c # cs) = (is_prefix n (c # cs) \<or> is_substr n cs)"

text \<open>\<open>n in c\<close> for a string \<open>n\<close>: element of a list, key of a dict, substring of a string.\<close>

fun contains :: "pyval \<Rightarrow> string \<Rightarrow> py_error + bool" where
  "contains (PList l) n = Inr (PStr n \<in> set l)"
| "contains (PDict d) n = Inr (map_of d n \<noteq> None)"
| "contains (PStr s) n = Inr (is_substr n s)"
| "contains _ n = Inl TypeError"

text \<open>\<open>x < v\<close> for a float \<open>x\<close>: defined against int, float and bool only.\<close>

fun float_lt :: "real \<Rightarrow> pyval \<Rightarrow> py_error + bool" where
  "float_lt x (PInt n) = Inr (x < real_of_int n)"
| "float_lt x (PFloat y) = Inr (x < y)"
| "float_lt x (PBool b) = Inr (x < (if b then 1 else 0))"
| "float_lt x _ = Inl TypeError"

text \<open>An object's attributes (\<open>__dict__\<close>), with \<open>getattr\<close> raising when the name is absent.\<close>

type_synonym attrs = "(string \<times> pyval) list"

definition hasattr :: "attrs \<Rightarrow> string \<Rightarrow> bool" where
  "hasattr ob k = (map_of ob k \<noteq> None)"

definition getattr :: "attrs \<Rightarrow> string \<Rightarrow> py_error + pyval" where
  "getattr ob k = (case map_of ob k of None \<Rightarrow> Inl AttributeError | Some v \<Rightarrow> Inr v)"

section \<open>The worklist and the world outside\<close>

text \<open>
  A worklist holds references to message objects; the messages themselves live in a heap,
  so that moving a message between partitions and mutating it are separate things.
\<close>

type_synonym heap = "nat \<Rightarrow> pyval"

record worklist =
  incoming :: "nat list"
  ok :: "nat list"
  rejected :: "nat list"
  failed :: "nat list"

text \<open>
  What the three modules call and do not define themselves, taken as parameters.
  For \<open>fdelay.py\<close>: the clock \<open>nowflt\<close> and the parser \<open>timestr2flt\<close> of the \<open>sarra\<close>
  package, \<open>os.path.join\<close>, \<open>os.path.exists\<close> and \<open>os.stat(f)[ST_MTIME]\<close>; the clock and the file
  system change while a batch is processed, so they are indexed by a tick that counts the
  calls made so far. For the constructor: \<open>logging_setup\<close> is what line 27 does with the two
  attribute values it has read (\<open>str.upper\<close>, the lookup in the \<open>logging\<close> module and
  \<open>basicConfig\<close>), and \<open>str2float\<close> is \<open>float\<close> on a string that is not a single character
  (\<open>None\<close> for ValueError). For \<open>accel_wget.py\<close>: \<open>https_get\<close> is the inherited \<open>Https.get\<close>,
  \<open>urljoin\<close> and \<open>path_str\<close> (\<open>str(Path(d, f))\<close>) are library functions, \<open>chdir\<close> is \<open>os.chdir\<close>,
  \<open>popen_wait\<close> starts the command and gives its exit status, \<open>stat_size\<close> is
  \<open>os.stat(p).st_size\<close>, and \<open>re_match_size\<close> gives group 1 of the regular expression of
  line 125 when it matches.
\<close>

record externals =
  nowflt :: "nat \<Rightarrow> real"
  timestr2flt :: "pyval \<Rightarrow> py_error + real"
  path_join :: "pyval \<Rightarrow> pyval \<Rightarrow> py_error + pyval"
  path_exists :: "nat \<Rightarrow> pyval \<Rightarrow> py_error + bool"
  stat_mtime :: "nat \<Rightarrow> pyval \<Rightarrow> py_error + real"
  logging_setup :: "pyval \<Rightarrow> pyval \<Rightarrow> py_error + unit"
  str2float :: "string \<Rightarrow> real option"
  https_get :: "pyval \<Rightarrow> pyval \<Rightarrow> pyval \<Rightarrow> pyval \<Rightarrow> pyval \<Rightarrow> py_error + pyval"
  urljoin :: "pyval \<Rightarrow> pyval \<Rightarrow> py_error + string"
  path_str :: "pyval \<Rightarrow> pyval \<Rightarrow> py_error + pyval"
  chdir :: "pyval \<Rightarrow> py_error + unit"
  popen_wait :: "string list \<Rightarrow> py_error + int"
  stat_size :: "pyval \<Rightarrow> py_error + int"
  re_match_size :: "string \<Rightarrow> string option"

section \<open>The retry-delay stage: FDelay.on_messages\<close>

datatype verdict = ToRejected | ToFailed | ToOutgoing

text \<open>
  Lines 64 to 66 of \<open>fdelay.py\<close>: \<open>m['isRetry'] = False\<close>, then \<open>'isRetry'\<close> is appended to
  \<open>m['_deleteOnPost']\<close> unless it is there already.
\<close>

definition mark_not_retry :: "pyval \<Rightarrow> py_error + pyval" where
  "mark_not_retry m =
     bindE (setitem m ''isRetry'' (PBool False)) (\<lambda>m1.
     bindE (getitem m1 ''_deleteOnPost'') (\<lambda>dop.
     bindE (contains dop ''isRetry'') (\<lambda>there.
       if there then Inr m1
       else (case dop of
               PList l \<Rightarrow> setitem m1 ''_deleteOnPost'' (PList (l @ [PStr ''isRetry'']))
             | _ \<Rightarrow> Inl AttributeError))))"

text \<open>Lines 72 to 75: the file the message refers to.\<close>

definition file_of :: "externals \<Rightarrow> pyval \<Rightarrow> py_error + pyval" where
  "file_of ext m =
     bindE (getitem m ''new_dir'') (\<lambda>nd.
     bindE (contains nd ''/cfr/'') (\<lambda>cfr.
       if cfr then bindE (getitem m ''new_file'') (\<lambda>nf. path_join ext nd nf)
       else getitem m ''relPath''))"

text \<open>
  The body of the loop (lines 52 to 97) for the message at address \<open>a\<close>, started at tick \<open>k\<close>:
  the tick afterwards, the heap afterwards, and the list the message was appended to.
\<close>

definition fdelay_one ::
  "externals \<Rightarrow> attrs \<Rightarrow> nat \<Rightarrow> heap \<Rightarrow> nat \<Rightarrow> py_error + (nat \<times> heap \<times> verdict)" where
  "fdelay_one ext opts k h a =
     bindE (getitem (h a) ''integrity'') (\<lambda>integ.
     bindE (getitem integ ''method'') (\<lambda>meth.
       if meth = PStr ''remove'' then Inr (k, h, ToRejected)
       else
         bindE (getitem (h a) ''pubTime'') (\<lambda>pt.
         bindE (timestr2flt ext pt) (\<lambda>t.
         bindE (getattr opts ''fdelay'') (\<lambda>fd.
         bindE (float_lt (nowflt ext k - t) fd) (\<lambda>young.
           if young then
             bindE (mark_not_retry (h a)) (\<lambda>m'. Inr (k + 1, h(a := m'), ToFailed))
           else
             bindE (file_of ext (h a)) (\<lambda>f.
             bindE (path_exists ext (k + 1) f) (\<lambda>ex.
               if \<not> ex then Inr (k + 2, h, ToFailed)
               else
                 bindE (stat_mtime ext (k + 2) f) (\<lambda>ft.
                 bindE (getattr opts ''fdelay'') (\<lambda>fd2.
                 bindE (float_lt (nowflt ext (k + 3) - ft) fd2) (\<lambda>fresh.
                   if fresh then
                     bindE (mark_not_retry (h a)) (\<lambda>m'. Inr (k + 4, h(a := m'), ToFailed))
                   else Inr (k + 4, h, ToOutgoing))))))))))))"

text \<open>Where the body appends the message: \<open>worklist.rejected\<close>, \<open>worklist.failed\<close> or \<open>outgoing\<close>.\<close>

fun place :: "verdict \<Rightarrow> nat \<Rightarrow> worklist \<times> nat list \<Rightarrow> worklist \<times> nat list" where
  "place ToRejected a (w, out) = (w\<lparr>rejected := rejected w @ [a]\<rparr>, out)"
| "place ToFailed a (w, out) = (w\<lparr>failed := failed w @ [a]\<rparr>, out)"
| "place ToOutgoing a (w, out) = (w, out @ [a])"

text \<open>The \<open>for\<close> loop of line 51 over the references in \<open>worklist.incoming\<close>.\<close>

fun fdelay_loop ::
  "externals \<Rightarrow> attrs \<Rightarrow> nat list \<Rightarrow> nat \<times> heap \<times> worklist \<times> nat list
     \<Rightarrow> py_error + (nat \<times> heap \<times> worklist \<times> nat list)" where
  "fdelay_loop ext opts [] st = Inr st"
| "fdelay_loop ext opts (a # as) (k, h, wo) =
     bindE (fdelay_one ext opts k h a) (\<lambda>(k', h', v).
       fdelay_loop ext opts as (k', h', place v a wo))"

text \<open>
  \<open>FDelay.on_messages\<close>: \<open>outgoing\<close> starts empty, and replaces \<open>worklist.incoming\<close> when the loop
  has ended (line 99). A raise inside the loop leaves the method before that line.
\<close>

definition FDelay_on_messages ::
  "externals \<Rightarrow> attrs \<Rightarrow> nat \<Rightarrow> heap \<Rightarrow> worklist \<Rightarrow> py_error + (nat \<times> heap \<times> worklist)" where
  "FDelay_on_messages ext opts k h w =
     bindE (fdelay_loop ext opts (incoming w) (k, h, w, [])) (\<lambda>(k', h', w', out).
       Inr (k', h', w'\<lparr>incoming := out\<rparr>))"

section \<open>More of Python: subscripts, iteration, float, ordering\<close>

text \<open>\<open>xs[i]\<close> for an integer: a negative index counts from the end, out of range raises.\<close>

definition index_list :: "'a list \<Rightarrow> int \<Rightarrow> py_error + 'a" where
  "index_list xs i =
     (if 0 \<le> i \<and> i < int (length xs) then Inr (xs ! nat i)
      else if i < 0 \<and> - int (length xs) \<le> i then Inr (xs ! nat (int (length xs) + i))
      else Inl IndexError)"

text \<open>
  \<open>c[k]\<close> for any key. The dicts of the model have string keys only, so another hashable key
  is absent from them; a list or dict as key is unhashable.
\<close>

fun subscript :: "pyval \<Rightarrow> pyval \<Rightarrow> py_error + pyval" where
  "subscript (PDict d) (PStr k) = getitem (PDict d) k"
| "subscript (PDict d) (PList _) = Inl TypeError"
| "subscript (PDict d) (PDict _) = Inl TypeError"
| "subscript (PDict d) _ = Inl KeyError"
| "subscript (PList l) (PInt i) = index_list l i"
| "subscript (PList l) (PBool b) = index_list l (if b then 1 else 0)"
| "subscript (PStr s) (PInt i) = bindE (index_list s i) (\<lambda>c. Inr (PStr [c]))"
| "subscript (PStr s) (PBool b) = bindE (index_list s (if b then 1 else 0)) (\<lambda>c. Inr (PStr [c]))"
| "subscript _ _ = Inl TypeError"

text \<open>What \<open>for s in c\<close> yields: the keys of a dict, the elements of a list, the characters of a string.\<close>

fun iter_keys :: "pyval \<Rightarrow> py_error + pyval list" where
  "iter_keys (PDict d) = Inr (map (\<lambda>kv. PStr (fst kv)) d)"
| "iter_keys (PList l) = Inr l"
| "iter_keys (PStr s) = Inr (map (\<lambda>c. PStr [c]) s)"
| "iter_keys _ = Inl TypeError"

text \<open>
  \<open>float(v)\<close>. On a string of one character only a decimal digit is accepted; any other
  string goes to the parameter \<open>str2float\<close>.
\<close>

definition float_of_str :: "externals \<Rightarrow> string \<Rightarrow> py_error + real" where
  "float_of_str ext s =
     (case s of
        [c] \<Rightarrow> (if 48 \<le> (of_char c :: nat) \<and> (of_char c :: nat) \<le> 57
                then Inr (real ((of_char c :: nat) - 48)) else Inl ValueError)
      | _ \<Rightarrow> (case str2float ext s of None \<Rightarrow> Inl ValueError | Some r \<Rightarrow> Inr r))"

fun py_float :: "externals \<Rightarrow> pyval \<Rightarrow> py_error + real" where
  "py_float ext (PInt n) = Inr (real_of_int n)"
| "py_float ext (PFloat r) = Inr r"
| "py_float ext (PBool b) = Inr (if b then 1 else 0)"
| "py_float ext (PStr s) = float_of_str ext s"
| "py_float ext _ = Inl TypeError"

fun num_of :: "pyval \<Rightarrow> real option" where
  "num_of (PInt n) = Some (real_of_int n)"
| "num_of (PFloat r) = Some r"
| "num_of (PBool b) = Some (if b then 1 else 0)"
| "num_of _ = None"

fun str_lt :: "string \<Rightarrow> string \<Rightarrow> bool" where
  "str_lt [] [] = False"
| "str_lt [] (y # ys) = True"
| "str_lt (x # xs) [] = False"
| "str_lt (x # xs) (y # ys) =
     ((of_char x :: nat) < of_char y \<or> (x = y \<and> str_lt xs ys))"

text \<open>
  \<open>a < b\<close>: numbers by value, strings by code point; the lexicographic order of two lists is
  left out of the model.
\<close>

definition py_lt :: "pyval \<Rightarrow> pyval \<Rightarrow> py_error + bool" where
  "py_lt a b =
     (case (num_of a, num_of b) of
        (Some x, Some y) \<Rightarrow> Inr (x < y)
      | _ \<Rightarrow> (case (a, b) of
                (PStr s, PStr t) \<Rightarrow> Inr (str_lt s t)
              | (PList _, PList _) \<Rightarrow> Inl NotModelled
              | _ \<Rightarrow> Inl TypeError))"

fun truthy :: "pyval \<Rightarrow> bool" where
  "truthy PNone = False"
| "truthy (PBool b) = b"
| "truthy (PInt n) = (n \<noteq> 0)"
| "truthy (PFloat r) = (r \<noteq> 0)"
| "truthy (PStr s) = (s \<noteq> [])"
| "truthy (PList l) = (l \<noteq> [])"
| "truthy (PDict d) = (d \<noteq> [])"

section \<open>Options objects, the constructors and load_library\<close>

text \<open>
  An options object is mutable and is shared by reference, so options live in a store: a list
  of attribute tables, an object's address being its index. Attribute values are trees, hence
  \<open>copy.deepcopy\<close> of an object is a new address holding an equal table.
\<close>

type_synonym ostore = "attrs list"

definition setattr :: "attrs \<Rightarrow> string \<Rightarrow> pyval \<Rightarrow> attrs" where
  "setattr ob k v = AList.update k v ob"

definition deepcopy :: "ostore \<Rightarrow> nat \<Rightarrow> ostore \<times> nat" where
  "deepcopy s a = (s @ [s ! a], length s)"

text \<open>A stage instance: its only field is \<open>self.o\<close>, a reference to its options.\<close>

record plugin =
  self_o :: nat

text \<open>\<open>FlowCB.__init__\<close> (lines 74 to 78 of \<open>flowcb/__init__.py\<close>).\<close>

definition FlowCB_init :: "externals \<Rightarrow> ostore \<Rightarrow> nat \<Rightarrow> py_error + (ostore \<times> plugin)" where
  "FlowCB_init ext s options =
     bindE (getattr (s ! options) ''logFormat'') (\<lambda>fmt.
     bindE (getattr (s ! options) ''logLevel'') (\<lambda>lv.
     bindE (logging_setup ext fmt lv) (\<lambda>_.
       Inr (s, \<lparr>self_o = options\<rparr>))))"

text \<open>
  Lines 32 to 42 of \<open>fdelay.py\<close>, on the attribute table of \<open>self.o\<close>. When a line raises,
  only the exception is kept, not what the lines before it had assigned.
\<close>

definition fdelay_config :: "externals \<Rightarrow> attrs \<Rightarrow> py_error + attrs" where
  "fdelay_config ext ob0 =
     (let ob1 = (case map_of ob0 ''msg_fdelay'' of
                   Some v \<Rightarrow> setattr ob0 ''fdelay'' v
                 | None \<Rightarrow> ob0);
          ob2 = (if \<not> hasattr ob1 ''fdelay'' then setattr ob1 ''fdelay'' (PInt 60) else ob1)
      in
        bindE (getattr ob2 ''fdelay'') (\<lambda>v2.
        bindE (case v2 of
                 PList l \<Rightarrow> bindE (index_list l 0) (\<lambda>x. Inr (setattr ob2 ''fdelay'' x))
               | _ \<Rightarrow> Inr ob2) (\<lambda>ob3.
        bindE (getattr ob3 ''fdelay'') (\<lambda>v3.
          case v3 of
            PInt _ \<Rightarrow> Inr ob3
          | PFloat _ \<Rightarrow> Inr ob3
          | _ \<Rightarrow> bindE (subscript v3 (PInt 0)) (\<lambda>x.
                 bindE (py_float ext x) (\<lambda>r.
                   Inr (setattr ob3 ''fdelay'' (PFloat r))))))))"

text \<open>
  \<open>FDelay.__init__\<close>: \<open>self.o\<close> is the object it is given, not a copy, so lines 32 to 42 write
  into that object.
\<close>

definition FDelay_init :: "externals \<Rightarrow> ostore \<Rightarrow> nat \<Rightarrow> py_error + (ostore \<times> plugin)" where
  "FDelay_init ext s options =
     bindE (getattr (s ! options) ''logFormat'') (\<lambda>fmt.
     bindE (getattr (s ! options) ''logLevel'') (\<lambda>lv.
     bindE (logging_setup ext fmt lv) (\<lambda>_.
     bindE (fdelay_config ext (s ! options)) (\<lambda>ob.
       Inr (s[options := ob], \<lparr>self_o = options\<rparr>)))))"

text \<open>\<open>factory_path.rsplit('.', 1)\<close>, unpacked into two names: \<open>None\<close> when there is no dot.\<close>

definition rsplit_dot :: "string \<Rightarrow> (string \<times> string) option" where
  "rsplit_dot p =
     (let r = rev p;
          rest = dropWhile (\<lambda>c. c \<noteq> CHR ''.'') r
      in if rest = [] then None
         else Some (rev (tl rest), rev (takeWhile (\<lambda>c. c \<noteq> CHR ''.'') r)))"

text \<open>
  The loop of lines 250 and 251: \<open>setattr(opt, s, options.settings[factory_path][s])\<close> for
  each \<open>s\<close> the iteration yields. The value is read from the caller's object each time.
\<close>

fun overlay_loop ::
  "string \<Rightarrow> nat \<Rightarrow> nat \<Rightarrow> pyval list \<Rightarrow> ostore \<Rightarrow> py_error + (ostore \<times> nat)" where
  "overlay_loop fp options opt [] s = Inr (s, opt)"
| "overlay_loop fp options opt (k # ks) s =
     bindE (getattr (s ! options) ''settings'') (\<lambda>st.
     bindE (getitem st fp) (\<lambda>ov.
     bindE (subscript ov k) (\<lambda>v.
       case k of
         PStr name \<Rightarrow> overlay_loop fp options opt ks (s[opt := setattr (s ! opt) name v])
       | _ \<Rightarrow> Inl TypeError)))"

text \<open>Lines 246 to 253: the options object the class is instantiated with.\<close>

definition resolve_opt :: "string \<Rightarrow> ostore \<Rightarrow> nat \<Rightarrow> py_error + (ostore \<times> nat)" where
  "resolve_opt factory_path s options =
     (if hasattr (s ! options) ''settings'' then
        (case deepcopy s options of (s1, opt) \<Rightarrow>
           bindE (getattr (s1 ! options) ''settings'') (\<lambda>st.
           bindE (contains st factory_path) (\<lambda>there.
             if there then
               bindE (getitem st factory_path) (\<lambda>ov.
               bindE (iter_keys ov) (\<lambda>ks. overlay_loop factory_path options opt ks s1))
             else Inr (s1, opt))))
      else Inr (s, options))"

text \<open>
  \<open>load_library\<close>. Importing the module and finding the class in it is the parameter
  \<open>import_class\<close>; a class is the function that instantiates it on a store and a reference.
\<close>

definition load_library ::
  "(string \<Rightarrow> string \<Rightarrow> py_error + (ostore \<Rightarrow> nat \<Rightarrow> py_error + (ostore \<times> 'p)))
     \<Rightarrow> string \<Rightarrow> ostore \<Rightarrow> nat \<Rightarrow> py_error + (ostore \<times> 'p)" where
  "load_library import_class factory_path s options =
     (case rsplit_dot factory_path of
        None \<Rightarrow> Inl ValueError
      | Some (packagename, classname) \<Rightarrow>
          bindE (import_class packagename classname) (\<lambda>cls.
          bindE (resolve_opt factory_path s options) (\<lambda>(s1, opt). cls s1 opt)))"

text \<open>The stage classes \<open>FDelay\<close> and \<open>FlowCB\<close>, as \<open>importlib\<close> finds them.\<close>

definition import_src ::
  "externals \<Rightarrow> string \<Rightarrow> string \<Rightarrow> py_error + (ostore \<Rightarrow> nat \<Rightarrow> py_error + (ostore \<times> plugin))" where
  "import_src ext packagename classname =
     (if packagename = ''sarra.flowcb.msg.fdelay'' \<and> classname = ''FDelay''
        then Inr (FDelay_init ext)
      else if packagename = ''sarra.flowcb'' \<and> classname = ''FlowCB''
        then Inr (FlowCB_init ext)
      else Inl ImportError)"

section \<open>The acceleration stage: ACCEL_WGET\<close>

text \<open>Lines 106 to 110 of \<open>accel_wget.py\<close>.\<close>

definition get_size :: "pyval \<Rightarrow> py_error + pyval" where
  "get_size msg =
     bindE (contains msg ''blocks'') (\<lambda>b.
       if b then bindE (getitem msg ''blocks'') (\<lambda>bl. getitem bl ''size'')
       else getitem msg ''size'')"

text \<open>The \<open>%d\<close> conversion of line 82 wants a number.\<close>

definition fmt_d :: "pyval \<Rightarrow> py_error + unit" where
  "fmt_d v = (case num_of v of None \<Rightarrow> Inl TypeError | Some _ \<Rightarrow> Inr ())"

text \<open>
  The loop of \<open>ACCEL_WGET.on_messages\<close> (lines 78 to 83): it reads the message and the
  threshold to build a debug line, and writes nothing.
\<close>

fun accel_loop :: "attrs \<Rightarrow> heap \<Rightarrow> nat list \<Rightarrow> py_error + unit" where
  "accel_loop opts h [] = Inr ()"
| "accel_loop opts h (a # as) =
     bindE (getitem (h a) ''integrity'') (\<lambda>integ.
     bindE (getitem integ ''method'') (\<lambda>meth.
       if meth = PStr ''link'' \<or> meth = PStr ''remove'' then accel_loop opts h as
       else
         bindE (get_size (h a)) (\<lambda>sz.
         bindE (getattr opts ''accel_wget_threshold'') (\<lambda>thr.
         bindE (getitem (h a) ''baseUrl'') (\<lambda>_.
         bindE (getitem (h a) ''new_file'') (\<lambda>_.
         bindE (fmt_d sz) (\<lambda>_.
         bindE (fmt_d thr) (\<lambda>_.
           accel_loop opts h as))))))))"

definition ACCEL_WGET_on_messages ::
  "attrs \<Rightarrow> heap \<Rightarrow> worklist \<Rightarrow> py_error + (heap \<times> worklist)" where
  "ACCEL_WGET_on_messages opts h w =
     bindE (accel_loop opts h (incoming w)) (\<lambda>_. Inr (h, w))"

text \<open>
  What \<open>do_get\<close> and \<open>check_results\<close> do to the outside is recorded, in order, next to the
  value returned or the exception raised.
\<close>

datatype action =
    BuiltinGet pyval pyval pyval pyval pyval
  | Chdir pyval
  | Popen "string list"
  | ReportPublish int string
  | SetReport int string

type_synonym 'a traced = "action list \<times> (py_error + 'a)"

definition bindT :: "'a traced \<Rightarrow> ('a \<Rightarrow> 'b traced) \<Rightarrow> 'b traced" where
  "bindT m f =
     (case m of
        (tr, Inl e) \<Rightarrow> (tr, Inl e)
      | (tr, Inr v) \<Rightarrow> (case f v of (tr', r) \<Rightarrow> (tr @ tr', r)))"

definition pureT :: "py_error + 'a \<Rightarrow> 'a traced" where
  "pureT r = ([], r)"

definition doT :: "action \<Rightarrow> py_error + 'a \<Rightarrow> 'a traced" where
  "doT act r = ([act], r)"

text \<open>\<open>str.split()\<close> on ASCII whitespace.\<close>

definition is_space :: "char \<Rightarrow> bool" where
  "is_space c = ((9 \<le> (of_char c :: nat) \<and> (of_char c :: nat) \<le> 13)
                 \<or> (28 \<le> (of_char c :: nat) \<and> (of_char c :: nat) \<le> 32))"

fun split_ws :: "string \<Rightarrow> string \<Rightarrow> string list" where
  "split_ws cur [] = (if cur = [] then [] else [cur])"
| "split_ws cur (c # cs) =
     (if is_space c then (if cur = [] then [] else [cur]) @ split_ws [] cs
      else split_ws (cur @ [c]) cs)"

text \<open>Lines 97 and 98: the command line.\<close>

definition accel_cmd :: "externals \<Rightarrow> attrs \<Rightarrow> pyval \<Rightarrow> py_error + string list" where
  "accel_cmd ext opts msg =
     bindE (getattr opts ''accel_wget_command'') (\<lambda>c.
       case c of
         PStr s \<Rightarrow>
           bindE (getitem msg ''baseUrl'') (\<lambda>bu.
           bindE (getitem msg ''relPath'') (\<lambda>rp.
           bindE (urljoin ext bu rp) (\<lambda>u. Inr (split_ws [] s @ [u]))))
       | _ \<Rightarrow> Inl AttributeError)"

text \<open>
  A finished \<open>subprocess.Popen\<close> object: \<open>stderr\<close> is the text of the pipe, and \<open>None\<close> when
  the process was started without \<open>stderr=PIPE\<close>.
\<close>

record proc =
  returncode :: int
  stderr :: "string option"

text \<open>
  Lines 117 to 121: the report. \<open>msg.report_publish\<close> and \<open>sarra.msg_set_report\<close> are defined
  elsewhere; each is recorded as an action and taken to return.
\<close>

definition report_step :: "attrs \<Rightarrow> proc \<Rightarrow> unit traced" where
  "report_step opts p =
     (let rb = (case map_of opts ''reportback'' of Some v \<Rightarrow> truthy v | None \<Rightarrow> False)
      in if returncode p \<noteq> 0
         then (if rb then doT (ReportPublish 499 ''wget download failed'') (Inr ())
               else pureT (Inr ()))
         else if rb then doT (SetReport 201 ''Downloaded'') (Inr ())
         else pureT (Inr ()))"

text \<open>\<open>check_results\<close> (lines 112 to 133); \<open>fct\<close> is the stat function it is handed.\<close>

definition check_results ::
  "externals \<Rightarrow> attrs \<Rightarrow> proc \<Rightarrow> pyval \<Rightarrow> (pyval \<Rightarrow> py_error + int) \<Rightarrow> pyval \<Rightarrow> pyval traced" where
  "check_results ext opts p msg fct filepath =
     bindT (report_step opts p) (\<lambda>_.
     bindT (pureT (case stderr p of None \<Rightarrow> Inl AttributeError | Some e \<Rightarrow> Inr e)) (\<lambda>err.
       case re_match_size ext err of
         Some sz \<Rightarrow> pureT (Inr (PStr sz))
       | None \<Rightarrow>
           pureT (case fct filepath of
                    Inr n \<Rightarrow> Inr (PInt n)
                  | Inl FileNotFoundError \<Rightarrow> Inr (PInt 0)
                  | Inl e \<Rightarrow> Inl e)))"

text \<open>
  \<open>do_get\<close> (lines 85 to 104). Line 102 is \<open>subprocess.Popen(cmd)\<close> with no pipe asked for, so
  the process object handed to \<open>check_results\<close> has no \<open>stderr\<close>.
\<close>

definition do_get ::
  "externals \<Rightarrow> attrs \<Rightarrow> pyval \<Rightarrow> pyval \<Rightarrow> pyval \<Rightarrow> pyval \<Rightarrow> pyval \<Rightarrow> pyval \<Rightarrow> pyval traced" where
  "do_get ext opts msg remote_file local_file remote_offset local_offset len =
     bindT (pureT (get_size msg)) (\<lambda>sz.
     bindT (pureT (getattr opts ''accel_wget_threshold'')) (\<lambda>thr.
     bindT (pureT (py_lt sz thr)) (\<lambda>below.
       if below then
         doT (BuiltinGet remote_file local_file remote_offset local_offset len)
             (https_get ext remote_file local_file remote_offset local_offset len)
       else
         bindT (pureT (getitem msg ''new_dir'')) (\<lambda>nd.
         bindT (doT (Chdir nd) (chdir ext nd)) (\<lambda>_.
         bindT (pureT (accel_cmd ext opts msg)) (\<lambda>cmd.
         bindT (pureT (getitem msg ''new_file'')) (\<lambda>nf.
         bindT (doT (Popen cmd) (popen_wait ext cmd)) (\<lambda>rc.
         bindT (pureT (path_str ext nd nf)) (\<lambda>fp.
           check_results ext opts \<lparr>returncode = rc, stderr = None\<rparr> msg (stat_size ext) fp)))))))))"

section \<open>A concrete world, for evaluating the model\<close>

text \<open>
  The clock reads 1000 seconds and gains a second at each call. Two publication times are
  known to the parser: 00:16:30 (10 seconds ago) and 00:14:40 (120 seconds ago). Two files
  exist: one modified at second 800, one at second 995.
\<close>

definition demo_ext :: externals where
  "demo_ext =
     \<lparr> nowflt = (\<lambda>k. 1000 + real k),
       timestr2flt = (\<lambda>v. if v = PStr ''19700101001630'' then Inr 990
                          else if v = PStr ''19700101001440'' then Inr 880
                          else Inl ValueError),
       path_join = (\<lambda>d f. case (d, f) of
                             (PStr x, PStr y) \<Rightarrow> Inr (PStr (x @ ''/'' @ y))
                           | _ \<Rightarrow> Inl TypeError),
       path_exists = (\<lambda>k f. Inr (f = PStr ''settled.dat'' \<or> f = PStr ''fresh.dat'')),
       stat_mtime = (\<lambda>k f. if f = PStr ''settled.dat'' then Inr 800
                            else if f = PStr ''fresh.dat'' then Inr 995
                            else Inl FileNotFoundError),
       logging_setup = (\<lambda>fmt lv. if lv = PStr ''info'' \<or> lv = PStr ''debug'' then Inr ()
                                  else Inl AttributeError),
       str2float = (\<lambda>s. None),
       https_get = (\<lambda>rf lf ro lo len. Inr len),
       urljoin = (\<lambda>b r. case (b, r) of
                           (PStr x, PStr y) \<Rightarrow> Inr (x @ y)
                         | _ \<Rightarrow> Inl TypeError),
       path_str = (\<lambda>d f. case (d, f) of
                            (PStr x, PStr y) \<Rightarrow> Inr (PStr (x @ ''/'' @ y))
                          | _ \<Rightarrow> Inl TypeError),
       chdir = (\<lambda>d. Inr ()),
       popen_wait = (\<lambda>cmd. Inr 8),
       stat_size = (\<lambda>f. Inl FileNotFoundError),
       re_match_size = (\<lambda>s. None) \<rparr>"

definition demo_msg :: "string \<Rightarrow> string \<Rightarrow> string \<Rightarrow> int \<Rightarrow> pyval" where
  "demo_msg method pub file sz =
     PDict [(''integrity'', PDict [(''method'', PStr method)]),
            (''pubTime'', PStr pub),
            (''baseUrl'', PStr ''http://data.example/''),
            (''relPath'', PStr file),
            (''new_dir'', PStr ''/srv/in''),
            (''new_file'', PStr file),
            (''size'', PInt sz),
            (''isRetry'', PBool True),
            (''_deleteOnPost'', PList [PStr ''new_dir'', PStr ''new_file''])]"

text \<open>
  Five messages: a removal, one published 10 seconds ago, one whose file is missing, one
  whose file is 5 seconds old, and one that is old enough in every respect.
\<close>

definition demo_heap :: heap where
  "demo_heap a =
     (if a = 0 then demo_msg ''remove'' ''19700101001630'' ''gone.dat'' 0
      else if a = 1 then demo_msg ''sha512'' ''19700101001630'' ''settled.dat'' 500000
      else if a = 2 then demo_msg ''sha512'' ''19700101001440'' ''missing.dat'' 500000
      else if a = 3 then demo_msg ''sha512'' ''19700101001440'' ''fresh.dat'' 2000000
      else if a = 4 then demo_msg ''sha512'' ''19700101001440'' ''settled.dat'' 2000000
      else PNone)"

definition demo_opts :: attrs where
  "demo_opts = [(''logFormat'', PStr ''%(message)s''), (''logLevel'', PStr ''info''),
                (''fdelay'', PInt 60),
                (''accel_wget_command'', PStr ''/usr/bin/wget -q''),
                (''accel_wget_threshold'', PInt 1048576),
                (''reportback'', PBool True)]"

definition demo_worklist :: worklist where
  "demo_worklist = \<lparr>incoming = [0, 1, 2, 3, 4], ok = [], rejected = [], failed = []\<rparr>"

text \<open>
  Two options objects of a flow: one without the attribute \<open>settings\<close>, and one whose
  \<open>settings\<close> hold an overlay for \<open>FDelay\<close> and an overlay for \<open>FlowCB\<close>.
\<close>

definition demo_plain_opts :: attrs where
  "demo_plain_opts = [(''logFormat'', PStr ''%(message)s''), (''logLevel'', PStr ''info'')]"

definition demo_flow_opts :: attrs where
  "demo_flow_opts =
     [(''logFormat'', PStr ''%(message)s''), (''logLevel'', PStr ''info''),
      (''fdelay'', PInt 90),
      (''settings'',
       PDict [(''sarra.flowcb.msg.fdelay.FDelay'', PDict [(''fdelay'', PInt 30)]),
              (''sarra.flowcb.FlowCB'', PDict [(''logLevel'', PStr ''debug'')])])]"

section \<open>The conditions the claims speak of\<close>

text \<open>\<open>m['integrity']['method']\<close>, and the test of line 52.\<close>

definition method_of :: "pyval \<Rightarrow> py_error + pyval" where
  "method_of m = bindE (getitem m ''integrity'') (\<lambda>i. getitem i ''method'')"

definition is_remove :: "pyval \<Rightarrow> bool" where
  "is_remove m = (method_of m = Inr (PStr ''remove''))"

text \<open>The test of line 60, with the clock read at tick \<open>k\<close>: the publication time is younger than the delay.\<close>

definition pub_young :: "externals \<Rightarrow> attrs \<Rightarrow> nat \<Rightarrow> pyval \<Rightarrow> py_error + bool" where
  "pub_young ext opts k m =
     bindE (getitem m ''pubTime'') (\<lambda>pt.
     bindE (timestr2flt ext pt) (\<lambda>t.
     bindE (getattr opts ''fdelay'') (\<lambda>fd.
       float_lt (nowflt ext k - t) fd)))"

text \<open>The test of line 76, with the file system looked at on tick \<open>k\<close>: the file does not exist.\<close>

definition file_missing :: "externals \<Rightarrow> nat \<Rightarrow> pyval \<Rightarrow> py_error + bool" where
  "file_missing ext k m =
     bindE (file_of ext m) (\<lambda>f.
     bindE (path_exists ext k f) (\<lambda>ex. Inr (\<not> ex)))"

text \<open>
  The test of line 85, with \<open>os.stat\<close> called on tick \<open>k\<close> and the clock read on the next one:
  the modification time of the file is younger than the delay.
\<close>

definition file_young :: "externals \<Rightarrow> attrs \<Rightarrow> nat \<Rightarrow> pyval \<Rightarrow> py_error + bool" where
  "file_young ext opts k m =
     bindE (file_of ext m) (\<lambda>f.
     bindE (stat_mtime ext k f) (\<lambda>ft.
     bindE (getattr opts ''fdelay'') (\<lambda>fd.
       float_lt (nowflt ext (k + 1) - ft) fd)))"

text \<open>
  The shape of a message in the data model: a mapping with an integrity descriptor that has a
  method, a publication time, a destination directory that is a string, a destination file,
  a relative path, and a list of the fields to delete on post.
\<close>

definition msg_shape :: "pyval \<Rightarrow> bool" where
  "msg_shape m =
     (case m of
        PDict d \<Rightarrow>
          (case map_of d ''integrity'' of
             Some (PDict i) \<Rightarrow> map_of i ''method'' \<noteq> None
           | _ \<Rightarrow> False)
          \<and> map_of d ''pubTime'' \<noteq> None
          \<and> (case map_of d ''new_dir'' of Some (PStr _) \<Rightarrow> True | _ \<Rightarrow> False)
          \<and> map_of d ''new_file'' \<noteq> None
          \<and> map_of d ''relPath'' \<noteq> None
          \<and> (case map_of d ''_deleteOnPost'' of Some (PList _) \<Rightarrow> True | _ \<Rightarrow> False)
      | _ \<Rightarrow> False)"



section \<open>Basic facts\<close>

lemma bindE_Inl [simp]: "bindE (Inl e) f = Inl e"
  by (simp add: bindE_def)

lemma bindE_Inr [simp]: "bindE (Inr v) f = f v"
  by (simp add: bindE_def)

lemma bindE_eq_Inr: "bindE r f = Inr y \<longleftrightarrow> (\<exists>v. r = Inr v \<and> f v = Inr y)"
  by (cases r) simp_all

section \<open>The loop of FDelay.on_messages\<close>

lemma mark_not_retry_ok:
  assumes "getitem m ''_deleteOnPost'' = Inr (PList dl)"
  shows "\<exists>m'. mark_not_retry m = Inr m' \<and> getitem m' ''isRetry'' = Inr (PBool False)
           \<and> method_of m' = method_of m"
proof -
  from assms obtain d where m: "m = PDict d"
    by (cases m) simp_all
  from assms m have dl: "map_of d ''_deleteOnPost'' = Some (PList dl)"
    by (simp split: option.splits)
  show ?thesis
    using dl by (simp add: m mark_not_retry_def method_of_def update_conv')
qed

lemma fdelay_one_remove:
  assumes "is_remove (h a)"
  shows "fdelay_one ext opts k h a = Inr (k, h, ToRejected)"
proof -
  from assms obtain i where "getitem (h a) ''integrity'' = Inr i" "getitem i ''method'' = Inr (PStr ''remove'')"
    by (auto simp: is_remove_def method_of_def bindE_eq_Inr)
  then show ?thesis by (simp add: fdelay_one_def)
qed

lemma fdelay_one_frame:
  assumes "fdelay_one ext opts k h a = Inr (k', h', v)"
  shows "b \<noteq> a \<Longrightarrow> h' b = h b"
  using assms
  by (auto simp: fdelay_one_def bindE_eq_Inr split: if_splits)





text \<open>The batch of five messages, run in the concrete world.\<close>

lemma demo_run:
  "\<exists>h'. FDelay_on_messages demo_ext demo_opts 0 demo_heap demo_worklist
     = Inr (11, h', \<lparr>incoming = [4], ok = [], rejected = [0], failed = [1, 2, 3]\<rparr>)"
  by (simp add: FDelay_on_messages_def demo_worklist_def fdelay_one_def demo_heap_def
      demo_msg_def demo_ext_def demo_opts_def getattr_def mark_not_retry_def file_of_def)


lemma fdelay_loop_remove_frame:
  assumes rm: "is_remove (h a)"
    and loop: "fdelay_loop ext opts as (k, h, w, out) = Inr (k', h', w', out')"
  shows "h' a = h a
         \<and> (a \<in> set as \<longrightarrow> a \<in> set (rejected w'))
         \<and> set (rejected w) \<subseteq> set (rejected w')
         \<and> (a \<in> set out' \<longrightarrow> a \<in> set out)
         \<and> (a \<in> set (failed w') \<longrightarrow> a \<in> set (failed w))"
  using assms
proof (induction as arbitrary: k h w out)
  case Nil
  then show ?case by simp
next
  case (Cons b bs)
  from Cons.prems(2) obtain k1 h1 v where one: "fdelay_one ext opts k h b = Inr (k1, h1, v)"
    and rest: "fdelay_loop ext opts bs (k1, h1, place v b (w, out)) = Inr (k', h', w', out')"
    by (auto simp: bindE_eq_Inr)
  obtain w1 out1 where pl: "place v b (w, out) = (w1, out1)"
    by (cases "place v b (w, out)")
  have h1a: "h1 a = h a"
  proof (cases "b = a")
    case True
    with one Cons.prems(1) fdelay_one_remove[where h = h and a = a and ext = ext and opts = opts and k = k]
    show ?thesis by simp
  next
    case False
    with fdelay_one_frame[OF one, of a] show ?thesis by simp
  qed
  have va: "b = a \<Longrightarrow> v = ToRejected"
    using one Cons.prems(1) fdelay_one_remove[where h = h and a = a and ext = ext and opts = opts and k = k]
    by simp
  from Cons.prems(1) h1a have rm1: "is_remove (h1 a)" by simp
  note IH = Cons.IH[OF rm1 rest[unfolded pl]]
  from pl va have
    "b = a \<Longrightarrow> a \<in> set (rejected w1)"
    "set (rejected w) \<subseteq> set (rejected w1)"
    "a \<in> set out1 \<Longrightarrow> a \<in> set out"
    "a \<in> set (failed w1) \<Longrightarrow> a \<in> set (failed w)"
    by (cases v; auto)+
  with IH h1a show ?case by auto
qed

text \<open>
  Claim C4. A message whose integrity method is \<open>remove\<close> is appended to \<open>rejected\<close> by its
  turn of the loop, whatever the clock, the parser and the file system would answer: the
  tick and the heap are the same after its turn as before. After a batch that ran to its
  end, the message is in \<open>rejected\<close>, not in \<open>incoming\<close>, in \<open>failed\<close> only if it was there
  before, and unchanged.
\<close>

theorem remove_rejected_at_once:
  assumes rm: "is_remove (h a)"
  shows "fdelay_loop ext opts (a # as) (k, h, w, out)
           = fdelay_loop ext opts as (k, h, w\<lparr>rejected := rejected w @ [a]\<rparr>, out)
         \<and> (a \<in> set (incoming w) \<and> FDelay_on_messages ext opts k h w = Inr (k', h', w')
              \<longrightarrow> a \<in> set (rejected w') \<and> a \<notin> set (incoming w')
                  \<and> (a \<in> set (failed w') \<longrightarrow> a \<in> set (failed w)) \<and> h' a = h a)"
proof -
  have step: "fdelay_loop ext opts (a # as) (k, h, w, out)
           = fdelay_loop ext opts as (k, h, w\<lparr>rejected := rejected w @ [a]\<rparr>, out)"
    using rm fdelay_one_remove[where h = h and a = a and ext = ext and opts = opts and k = k]
    by simp
  have batch: "a \<in> set (rejected w') \<and> a \<notin> set (incoming w')
                  \<and> (a \<in> set (failed w') \<longrightarrow> a \<in> set (failed w)) \<and> h' a = h a"
    if a: "a \<in> set (incoming w)"
      and run: "FDelay_on_messages ext opts k h w = Inr (k', h', w')"
  proof -
    from run obtain w1 out where
      loop: "fdelay_loop ext opts (incoming w) (k, h, w, []) = Inr (k', h', w1, out)"
      and w': "w' = w1\<lparr>incoming := out\<rparr>"
      by (auto simp: FDelay_on_messages_def bindE_eq_Inr)
    from fdelay_loop_remove_frame[OF rm loop] a w'
    show ?thesis by auto
  qed
  from step batch show ?thesis by blast
qed

theorem remove_rejected_at_once_witness:
  "is_remove (demo_heap 0) \<and> (0::nat) \<in> set (incoming demo_worklist)
   \<and> (\<exists>h'. FDelay_on_messages demo_ext demo_opts 0 demo_heap demo_worklist
              = Inr (11, h', \<lparr>incoming = [4], ok = [], rejected = [0], failed = [1, 2, 3]\<rparr>)
            \<and> h' 0 = demo_heap 0)
   \<and> fdelay_loop demo_ext demo_opts [0] (0, demo_heap, demo_worklist, [])
        = Inr (0, demo_heap, demo_worklist\<lparr>rejected := [0]\<rparr>, [])"
proof -
  from demo_run obtain h' where
    run: "FDelay_on_messages demo_ext demo_opts 0 demo_heap demo_worklist
            = Inr (11, h', \<lparr>incoming = [4], ok = [], rejected = [0], failed = [1, 2, 3]\<rparr>)"
    by blast
  have rm: "is_remove (demo_heap 0)"
    by (simp add: is_remove_def method_of_def demo_heap_def demo_msg_def)
  have a: "(0::nat) \<in> set (incoming demo_worklist)"
    by (simp add: demo_worklist_def)
  from remove_rejected_at_once[where h = demo_heap and a = 0 and ext = demo_ext
      and opts = demo_opts and as = "[]" and k = 0 and w = demo_worklist and out = "[]"
      and k' = 11 and h' = h'
      and w' = "\<lparr>incoming = [4], ok = [], rejected = [0], failed = [1, 2, 3]\<rparr>", OF rm]
    run a rm
  show ?thesis by (auto simp: demo_worklist_def)
qed

section \<open>The delay tests\<close>

lemma method_of_not_remove:
  assumes "method_of m = Inr meth" "meth \<noteq> PStr ''remove''"
  obtains integ where "getitem m ''integrity'' = Inr integ" "getitem integ ''method'' = Inr meth"
  using assms by (auto simp: method_of_def bindE_eq_Inr)

lemma fdelay_one_pub_young:
  assumes meth: "method_of (h a) = Inr meth" "meth \<noteq> PStr ''remove''"
    and dl: "getitem (h a) ''_deleteOnPost'' = Inr (PList dl)"
    and young: "pub_young ext opts k (h a) = Inr True"
  shows "\<exists>m'. getitem m' ''isRetry'' = Inr (PBool False)
           \<and> fdelay_one ext opts k h a = Inr (k + 1, h(a := m'), ToFailed)"
proof -
  from meth obtain integ where i: "getitem (h a) ''integrity'' = Inr integ"
    "getitem integ ''method'' = Inr meth"
    by (rule method_of_not_remove)
  from mark_not_retry_ok[OF dl] obtain m' where
    m': "mark_not_retry (h a) = Inr m'" "getitem m' ''isRetry'' = Inr (PBool False)"
    by blast
  from young obtain pt t fd where
    "getitem (h a) ''pubTime'' = Inr pt" "timestr2flt ext pt = Inr t"
    "getattr opts ''fdelay'' = Inr fd" "float_lt (nowflt ext k - t) fd = Inr True"
    by (auto simp: pub_young_def bindE_eq_Inr)
  with i meth(2) m' have "fdelay_one ext opts k h a = Inr (k + 1, h(a := m'), ToFailed)"
    by (simp add: fdelay_one_def)
  with m'(2) show ?thesis by blast
qed



lemma fdelay_one_old_enough:
  assumes meth: "method_of (h a) = Inr meth" "meth \<noteq> PStr ''remove''"
    and old: "pub_young ext opts k (h a) = Inr False"
    and there: "file_missing ext (k + 1) (h a) = Inr False"
    and settled: "file_young ext opts (k + 2) (h a) = Inr False"
  shows "fdelay_one ext opts k h a = Inr (k + 4, h, ToOutgoing)"
proof -
  from meth obtain integ where i: "getitem (h a) ''integrity'' = Inr integ"
    "getitem integ ''method'' = Inr meth"
    by (rule method_of_not_remove)
  from old obtain pt t fd where
    p: "getitem (h a) ''pubTime'' = Inr pt" "timestr2flt ext pt = Inr t"
    "getattr opts ''fdelay'' = Inr fd" "float_lt (nowflt ext k - t) fd = Inr False"
    by (auto simp: pub_young_def bindE_eq_Inr)
  from there obtain f where
    f: "file_of ext (h a) = Inr f" "path_exists ext (k + 1) f = Inr True"
    by (auto simp: file_missing_def bindE_eq_Inr)
  from settled f(1) p(3) obtain ft where
    "stat_mtime ext (k + 2) f = Inr ft" "float_lt (nowflt ext (k + 3) - ft) fd = Inr False"
    by (auto simp: file_young_def bindE_eq_Inr numeral_3_eq_3 add.commute)
  with i meth(2) p f show ?thesis
    by (simp add: fdelay_one_def)
qed




lemma demo_method:
  "method_of (demo_heap 1) = Inr (PStr ''sha512'')"
  "method_of (demo_heap 2) = Inr (PStr ''sha512'')"
  "method_of (demo_heap 3) = Inr (PStr ''sha512'')"
  "method_of (demo_heap 4) = Inr (PStr ''sha512'')"
  by (simp_all add: method_of_def demo_heap_def demo_msg_def)

lemma demo_deleteOnPost:
  "getitem (demo_heap 1) ''_deleteOnPost'' = Inr (PList [PStr ''new_dir'', PStr ''new_file''])"
  "getitem (demo_heap 2) ''_deleteOnPost'' = Inr (PList [PStr ''new_dir'', PStr ''new_file''])"
  "getitem (demo_heap 3) ''_deleteOnPost'' = Inr (PList [PStr ''new_dir'', PStr ''new_file''])"
  "getitem (demo_heap 4) ''_deleteOnPost'' = Inr (PList [PStr ''new_dir'', PStr ''new_file''])"
  by (simp_all add: demo_heap_def demo_msg_def)

lemma demo_pub_young:
  "pub_young demo_ext demo_opts 0 (demo_heap 1) = Inr True"
  "pub_young demo_ext demo_opts 0 (demo_heap 2) = Inr False"
  "pub_young demo_ext demo_opts 0 (demo_heap 3) = Inr False"
  "pub_young demo_ext demo_opts 0 (demo_heap 4) = Inr False"
  by (simp_all add: pub_young_def demo_heap_def demo_msg_def demo_ext_def demo_opts_def
      getattr_def)

lemma demo_file_missing:
  "file_missing demo_ext 1 (demo_heap 2) = Inr True"
  "file_missing demo_ext 1 (demo_heap 3) = Inr False"
  "file_missing demo_ext 1 (demo_heap 4) = Inr False"
  by (simp_all add: file_missing_def file_of_def demo_heap_def demo_msg_def demo_ext_def)

lemma demo_file_young:
  "file_young demo_ext demo_opts 2 (demo_heap 3) = Inr True"
  "file_young demo_ext demo_opts 2 (demo_heap 4) = Inr False"
  by (simp_all add: file_young_def file_of_def demo_heap_def demo_msg_def demo_ext_def
      demo_opts_def getattr_def)



text \<open>
  Claim C3, as amended. For a message whose integrity method is not \<open>remove\<close> and whose
  \<open>_deleteOnPost\<close> is a list: if the publication time is younger than the delay, \<open>isRetry\<close> is
  set to \<open>False\<close> and the message is appended to \<open>failed\<close>; if it is not younger, and the file
  exists, and the modification time of the file is not younger than the delay either, the
  message is appended unchanged to \<open>outgoing\<close>, the list that becomes \<open>incoming\<close>.
\<close>

theorem pub_time_test_outcome:
  assumes meth: "method_of (h a) = Inr meth" "meth \<noteq> PStr ''remove''"
    and dl: "getitem (h a) ''_deleteOnPost'' = Inr (PList dl)"
  shows "(pub_young ext opts k (h a) = Inr True \<longrightarrow>
            (\<exists>m'. getitem m' ''isRetry'' = Inr (PBool False)
               \<and> fdelay_loop ext opts (a # as) (k, h, w, out)
                   = fdelay_loop ext opts as (k + 1, h(a := m'), w\<lparr>failed := failed w @ [a]\<rparr>, out)))
       \<and> (pub_young ext opts k (h a) = Inr False \<and> file_missing ext (k + 1) (h a) = Inr False
            \<and> file_young ext opts (k + 2) (h a) = Inr False \<longrightarrow>
            fdelay_loop ext opts (a # as) (k, h, w, out)
              = fdelay_loop ext opts as (k + 4, h, w, out @ [a]))"
proof (intro conjI impI)
  assume "pub_young ext opts k (h a) = Inr True"
  from fdelay_one_pub_young[where h = h and a = a, OF meth dl this] obtain m' where
    "getitem m' ''isRetry'' = Inr (PBool False)"
    "fdelay_one ext opts k h a = Inr (k + 1, h(a := m'), ToFailed)" by blast
  then show "\<exists>m'. getitem m' ''isRetry'' = Inr (PBool False)
               \<and> fdelay_loop ext opts (a # as) (k, h, w, out)
                   = fdelay_loop ext opts as (k + 1, h(a := m'), w\<lparr>failed := failed w @ [a]\<rparr>, out)"
    by (intro exI[of _ m']) simp
next
  assume "pub_young ext opts k (h a) = Inr False \<and> file_missing ext (k + 1) (h a) = Inr False
            \<and> file_young ext opts (k + 2) (h a) = Inr False"
  then have "fdelay_one ext opts k h a = Inr (k + 4, h, ToOutgoing)"
    using fdelay_one_old_enough[where h = h and a = a, OF meth] by blast
  then show "fdelay_loop ext opts (a # as) (k, h, w, out)
              = fdelay_loop ext opts as (k + 4, h, w, out @ [a])"
    by simp
qed

theorem pub_time_test_outcome_witness:
  "(pub_young demo_ext demo_opts 0 (demo_heap 1) = Inr True
      \<and> (\<exists>m'. getitem m' ''isRetry'' = Inr (PBool False)
            \<and> fdelay_loop demo_ext demo_opts [1] (0, demo_heap, demo_worklist, [])
                = Inr (1, demo_heap(1 := m'), demo_worklist\<lparr>failed := [1]\<rparr>, [])))
   \<and> (pub_young demo_ext demo_opts 0 (demo_heap 4) = Inr False
      \<and> file_missing demo_ext 1 (demo_heap 4) = Inr False
      \<and> file_young demo_ext demo_opts 2 (demo_heap 4) = Inr False
      \<and> fdelay_loop demo_ext demo_opts [4] (0, demo_heap, demo_worklist, [])
                = Inr (4, demo_heap, demo_worklist, [4]))"
proof -
  have ne: "PStr ''sha512'' \<noteq> PStr ''remove''" by simp
  note t1 = pub_time_test_outcome[where h = demo_heap and a = 1 and ext = demo_ext
      and opts = demo_opts and k = 0 and as = "[]" and w = demo_worklist and out = "[]",
      OF demo_method(1) ne demo_deleteOnPost(1)]
  note t4 = pub_time_test_outcome[where h = demo_heap and a = 4 and ext = demo_ext
      and opts = demo_opts and k = 0 and as = "[]" and w = demo_worklist and out = "[]",
      OF demo_method(4) ne demo_deleteOnPost(4)]
  from t1 demo_pub_young(1) have c1:
    "\<exists>m'. getitem m' ''isRetry'' = Inr (PBool False)
            \<and> fdelay_loop demo_ext demo_opts [1] (0, demo_heap, demo_worklist, [])
                = Inr (1, demo_heap(1 := m'), demo_worklist\<lparr>failed := [1]\<rparr>, [])"
    by (simp add: demo_worklist_def)
  from t4 demo_pub_young(4) demo_file_missing(3) demo_file_young(2) have c4:
    "fdelay_loop demo_ext demo_opts [4] (0, demo_heap, demo_worklist, [])
                = Inr (4, demo_heap, demo_worklist, [4])"
    by (simp add: numeral_2_eq_2)
  from c1 c4 demo_pub_young demo_file_missing demo_file_young show ?thesis
    by simp
qed

text \<open>
  Claim C3 as stated fails on its second half. Messages 4 and 2 are not removals and were
  both published 120 seconds ago, with a delay of 60 seconds. Message 4 stays in \<open>incoming\<close>;
  the file of message 2 does not exist, and message 2 ends in \<open>failed\<close>.
\<close>

theorem old_message_not_forwarded_counterexample:
  "method_of (demo_heap 2) = Inr (PStr ''sha512'')
   \<and> getattr demo_opts ''fdelay'' = Inr (PInt 60)
   \<and> pub_young demo_ext demo_opts 4 (demo_heap 2) = Inr False
   \<and> FDelay_on_messages demo_ext demo_opts 0 demo_heap
        \<lparr>incoming = [4, 2], ok = [], rejected = [], failed = []\<rparr>
       = Inr (6, demo_heap, \<lparr>incoming = [4], ok = [], rejected = [], failed = [2]\<rparr>)"
  by (simp add: FDelay_on_messages_def fdelay_one_def file_of_def pub_young_def method_of_def
      demo_heap_def demo_msg_def demo_ext_def demo_opts_def getattr_def)

section \<open>The acceleration stage\<close>

lemma bindT_pureT_Inr [simp]: "bindT (pureT (Inr v)) f = f v"
  by (simp add: bindT_def pureT_def split: prod.splits)

lemma bindT_pureT_Inl [simp]: "bindT (pureT (Inl e)) f = ([], Inl e)"
  by (simp add: bindT_def pureT_def)

lemma bindT_doT_Inr [simp]: "bindT (doT act (Inr v)) f = (act # fst (f v), snd (f v))"
  by (simp add: bindT_def doT_def split: prod.splits)

lemma bindT_doT_Inl [simp]: "bindT (doT act (Inl e)) f = ([act], Inl e)"
  by (simp add: bindT_def doT_def)

lemma accel_loop_unit: "accel_loop opts h as = Inr u \<Longrightarrow> u = ()"
  by simp

text \<open>Whenever \<open>ACCEL_WGET.on_messages\<close> returns, the heap and the worklist are what they were.\<close>

lemma ACCEL_WGET_on_messages_changes_nothing:
  "ACCEL_WGET_on_messages opts h w = Inr r \<Longrightarrow> r = (h, w)"
  by (auto simp: ACCEL_WGET_on_messages_def bindE_eq_Inr)

text \<open>
  Claim C6 on the code. Message 3 declares 2,000,000 bytes, the threshold is 1,048,576, and
  \<open>ACCEL_WGET.on_messages\<close> returns with the message as it was: its \<open>baseUrl\<close> still has the
  scheme \<open>http\<close>.
\<close>

theorem accel_on_messages_no_rewrite:
  "get_size (demo_heap 3) = Inr (PInt 2000000)
   \<and> getattr demo_opts ''accel_wget_threshold'' = Inr (PInt 1048576)
   \<and> py_lt (PInt 2000000) (PInt 1048576) = Inr False
   \<and> ACCEL_WGET_on_messages demo_opts demo_heap
        \<lparr>incoming = [3], ok = [], rejected = [], failed = []\<rparr>
       = Inr (demo_heap, \<lparr>incoming = [3], ok = [], rejected = [], failed = []\<rparr>)
   \<and> getitem (demo_heap 3) ''baseUrl'' = Inr (PStr ''http://data.example/'')"
  by (simp add: ACCEL_WGET_on_messages_def get_size_def fmt_d_def py_lt_def
      demo_heap_def demo_msg_def demo_opts_def getattr_def)

lemma check_results_no_stderr:
  "snd (check_results ext opts \<lparr>returncode = rc, stderr = None\<rparr> msg fct fp) = Inl AttributeError"
  by (simp add: check_results_def report_step_def Let_def bindT_def pureT_def doT_def
      split: prod.splits)


text \<open>
  The accelerated branch of \<open>do_get\<close> never returns a value: when the size is not below the
  threshold, whatever else happens, the call ends in an exception.
\<close>

lemma do_get_accelerated_raises:
  assumes "get_size msg = Inr sz" "getattr opts ''accel_wget_threshold'' = Inr thr"
    "py_lt sz thr = Inr False"
  shows "\<exists>e. snd (do_get ext opts msg rf lf ro lo len) = Inl e"
proof -
  have cr: "\<And>rc fp. \<exists>e. snd (check_results ext opts \<lparr>returncode = rc, stderr = None\<rparr> msg (stat_size ext) fp) = Inl e"
    using check_results_no_stderr by blast
  show ?thesis
    using assms cr
    apply (simp add: do_get_def)
    apply (cases "getitem msg ''new_dir''"; simp)
    apply (cases "chdir ext (projr (getitem msg ''new_dir''))"; simp)
    apply (cases "accel_cmd ext opts msg"; simp)
    apply (cases "getitem msg ''new_file''"; simp)
    apply (cases "popen_wait ext (projr (accel_cmd ext opts msg))"; simp)
    apply (cases "path_str ext (projr (getitem msg ''new_dir'')) (projr (getitem msg ''new_file''))"; simp)
    done
qed










text \<open>
  Claim C8 on the code. The message of 2,000,000 bytes is at or above the threshold of
  1,048,576; the command exits with status 8, the destination file does not exist and no
  size could be parsed. The failure report is published, and then \<open>do_get\<close> raises
  AttributeError at \<open>p.stderr.read()\<close> instead of returning 0.
\<close>

theorem do_get_accelerated_at_demo:
  "do_get demo_ext demo_opts (demo_heap 3) (PStr ''r'') (PStr ''l'') (PInt 0) (PInt 0) (PInt 2000000)
     = ([Chdir (PStr ''/srv/in''),
         Popen [''/usr/bin/wget'', ''-q'', ''http://data.example/fresh.dat''],
         ReportPublish 499 ''wget download failed''],
        Inl AttributeError)"
  by (simp add: do_get_def check_results_def report_step_def accel_cmd_def is_space_def
      get_size_def py_lt_def demo_heap_def demo_msg_def demo_opts_def demo_ext_def getattr_def
      bindT_def doT_def pureT_def)

text \<open>
  What \<open>check_results\<close> does when it is handed a process whose \<open>stderr\<close> was piped: with a
  non-zero exit status the failure report is published exactly when \<open>reportback\<close> is set and
  true, and the result is 0 when nothing could be parsed and the file does not exist.
\<close>

lemma check_results_report_iff:
  assumes "returncode p \<noteq> 0"
  shows "ReportPublish 499 ''wget download failed'' \<in> set (fst (check_results ext opts p msg fct fp))
         \<longleftrightarrow> (\<exists>v. map_of opts ''reportback'' = Some v \<and> truthy v)"
  using assms
  by (auto simp: check_results_def report_step_def Let_def bindT_def pureT_def doT_def
      split: prod.splits option.splits sum.splits py_error.splits if_splits)

lemma check_results_missing_file:
  assumes "stderr p = Some err" "re_match_size ext err = None" "fct fp = Inl FileNotFoundError"
  shows "snd (check_results ext opts p msg fct fp) = Inr (PInt 0)"
  using assms
  by (auto simp: check_results_def report_step_def Let_def bindT_def pureT_def doT_def
      split: prod.splits option.splits sum.splits py_error.splits if_splits)

section \<open>load_library\<close>

lemma getattr_Some: "map_of ob k = Some v \<Longrightarrow> getattr ob k = Inr v"
  by (simp add: getattr_def)

lemma map_of_setattr: "map_of (setattr ob k v) = (map_of ob)(k \<mapsto> v)"
  by (simp add: setattr_def update_conv')


text \<open>On an overlay that is a dict, the loop succeeds and lays every key over the object.\<close>

lemma overlay_loop_dict:
  assumes "options < length s" "opt < length s" "opt \<noteq> options"
    and "map_of (s ! options) ''settings'' = Some st"
    and "getitem st fp = Inr (PDict ov)"
    and "set ks \<subseteq> fst ` set ov"
  shows "\<exists>ob. overlay_loop fp options opt (map PStr ks) s = Inr (s[opt := ob], opt)
           \<and> (\<forall>k. map_of ob k = (if k \<in> set ks then map_of ov k else map_of (s ! opt) k))"
  using assms
proof (induction ks arbitrary: s)
  case Nil
  then show ?case by (intro exI[of _ "s ! opt"]) simp
next
  case (Cons k ks)
  from Cons.prems(6) obtain v where v: "map_of ov k = Some v"
    by (metis list.set_intros(1) subsetD map_of_eq_None_iff not_Some_eq)
  let ?s1 = "s[opt := setattr (s ! opt) k v]"
  have step: "overlay_loop fp options opt (map PStr (k # ks)) s
                = overlay_loop fp options opt (map PStr ks) ?s1"
    using Cons.prems v by (simp add: getattr_Some)
  have "\<exists>ob. overlay_loop fp options opt (map PStr ks) ?s1 = Inr (?s1[opt := ob], opt)
           \<and> (\<forall>k'. map_of ob k' = (if k' \<in> set ks then map_of ov k' else map_of (?s1 ! opt) k'))"
    using Cons.prems by (intro Cons.IH) simp_all
  then obtain ob where ob: "overlay_loop fp options opt (map PStr ks) ?s1 = Inr (?s1[opt := ob], opt)"
    "\<forall>k'. map_of ob k' = (if k' \<in> set ks then map_of ov k' else map_of (?s1 ! opt) k')"
    by blast
  show ?case
  proof (intro exI[of _ ob] conjI allI)
    show "overlay_loop fp options opt (map PStr (k # ks)) s = Inr (s[opt := ob], opt)"
      using step ob(1) by simp
  next
    fix k'
    show "map_of ob k' = (if k' \<in> set (k # ks) then map_of ov k' else map_of (s ! opt) k')"
      using ob(2) Cons.prems(2) v by (simp add: map_of_setattr)
  qed
qed




lemma resolve_opt_dict:
  assumes "options < length s"
    and "map_of (s ! options) ''settings'' = Some (PDict st)"
    and "map_of st fp = Some (PDict ov)"
  shows "\<exists>ob. resolve_opt fp s options = Inr (s @ [ob], length s)
           \<and> (\<forall>k. map_of ob k = (case map_of ov k of Some v \<Rightarrow> Some v
                                   | None \<Rightarrow> map_of (s ! options) k))"
proof -
  let ?s0 = "s @ [s ! options]"
  have s0: "?s0 ! options = s ! options" "?s0 ! length s = s ! options"
    using assms(1) by (simp_all add: nth_append)
  have "\<exists>ob. overlay_loop fp options (length s) (map PStr (map fst ov)) ?s0
               = Inr (?s0[length s := ob], length s)
           \<and> (\<forall>k. map_of ob k = (if k \<in> set (map fst ov) then map_of ov k
                                   else map_of (?s0 ! length s) k))"
    using assms by (intro overlay_loop_dict[where st = "PDict st"]) (simp_all add: s0)
  then obtain ob where
    loop: "overlay_loop fp options (length s) (map PStr (map fst ov)) ?s0
               = Inr (?s0[length s := ob], length s)"
    and ob: "\<forall>k. map_of ob k = (if k \<in> set (map fst ov) then map_of ov k
                                   else map_of (?s0 ! length s) k)"
    by blast
  have keys: "map (\<lambda>kv. PStr (fst kv)) ov = map PStr (map fst ov)" by simp
  have res: "resolve_opt fp s options = Inr (s @ [ob], length s)"
    using assms loop
    by (simp add: resolve_opt_def hasattr_def deepcopy_def s0 getattr_Some keys del: map_map)
  have "map_of ob k = (case map_of ov k of Some v \<Rightarrow> Some v | None \<Rightarrow> map_of (s ! options) k)"
    for k
  proof -
    have "k \<in> set (map fst ov) \<longleftrightarrow> map_of ov k \<noteq> None"
      by (simp add: map_of_eq_None_iff)
    with ob s0(2) show ?thesis by (cases "map_of ov k") simp_all
  qed
  with res show ?thesis by blast
qed

text \<open>
  Claim C9. Let the options have a \<open>settings\<close> dict with an overlay dict under the qualified
  name \<open>fp\<close>. Then \<open>load_library\<close> instantiates the class on a new options object in which
  every option of that overlay is an attribute with the overlay's value, and every other
  attribute is as in the flow-wide options: an overlay under another name gives it nothing.
\<close>

theorem load_library_overlay:
  assumes "options < length s"
    and "map_of (s ! options) ''settings'' = Some (PDict st)"
    and "map_of st fp = Some (PDict ov)"
    and "rsplit_dot fp = Some (pk, cn)"
    and "import_class pk cn = Inr cls"
  shows "\<exists>ob. load_library import_class fp s options = cls (s @ [ob]) (length s)
           \<and> (\<forall>k v. map_of ov k = Some v \<longrightarrow> map_of ob k = Some v)
           \<and> (\<forall>k. map_of ov k = None \<longrightarrow> map_of ob k = map_of (s ! options) k)"
proof -
  from resolve_opt_dict[OF assms(1-3)] obtain ob where
    res: "resolve_opt fp s options = Inr (s @ [ob], length s)"
    and ob: "\<forall>k. map_of ob k = (case map_of ov k of Some v \<Rightarrow> Some v
                                   | None \<Rightarrow> map_of (s ! options) k)"
    by blast
  have "load_library import_class fp s options = cls (s @ [ob]) (length s)"
    using assms(4,5) res by (simp add: load_library_def)
  with ob show ?thesis by (intro exI[of _ ob]) simp
qed





lemma demo_rsplit:
  "rsplit_dot ''sarra.flowcb.msg.fdelay.FDelay'' = Some (''sarra.flowcb.msg.fdelay'', ''FDelay'')"
  by (simp add: rsplit_dot_def)

lemma demo_import:
  "import_src demo_ext ''sarra.flowcb.msg.fdelay'' ''FDelay'' = Inr (FDelay_init demo_ext)"
  by (simp add: import_src_def)

theorem load_library_overlay_witness:
  "map_of ([demo_flow_opts] ! 0) ''settings''
     = Some (PDict [(''sarra.flowcb.msg.fdelay.FDelay'', PDict [(''fdelay'', PInt 30)]),
                    (''sarra.flowcb.FlowCB'', PDict [(''logLevel'', PStr ''debug'')])])
   \<and> map_of demo_flow_opts ''fdelay'' = Some (PInt 90)
   \<and> (\<exists>ob. load_library (import_src demo_ext) ''sarra.flowcb.msg.fdelay.FDelay'' [demo_flow_opts] 0
              = FDelay_init demo_ext ([demo_flow_opts] @ [ob]) (length [demo_flow_opts])
            \<and> map_of ob ''fdelay'' = Some (PInt 30)
            \<and> map_of ob ''logLevel'' = Some (PStr ''info''))"
proof -
  have len: "(0::nat) < length [demo_flow_opts]" by simp
  have st: "map_of ([demo_flow_opts] ! 0) ''settings''
     = Some (PDict [(''sarra.flowcb.msg.fdelay.FDelay'', PDict [(''fdelay'', PInt 30)]),
                    (''sarra.flowcb.FlowCB'', PDict [(''logLevel'', PStr ''debug'')])])"
    by (simp add: demo_flow_opts_def)
  have ov: "map_of [(''sarra.flowcb.msg.fdelay.FDelay'', PDict [(''fdelay'', PInt 30)]),
                    (''sarra.flowcb.FlowCB'', PDict [(''logLevel'', PStr ''debug'')])]
              ''sarra.flowcb.msg.fdelay.FDelay'' = Some (PDict [(''fdelay'', PInt 30)])"
    by simp
  from load_library_overlay[where s = "[demo_flow_opts]" and options = 0
      and import_class = "import_src demo_ext" and cls = "FDelay_init demo_ext",
      OF len st ov demo_rsplit demo_import]
  obtain ob where
    run: "load_library (import_src demo_ext) ''sarra.flowcb.msg.fdelay.FDelay'' [demo_flow_opts] 0
              = FDelay_init demo_ext ([demo_flow_opts] @ [ob]) (length [demo_flow_opts])"
    and own: "\<forall>k v. map_of [(''fdelay'', PInt 30)] k = Some v \<longrightarrow> map_of ob k = Some v"
    and other: "\<forall>k. map_of [(''fdelay'', PInt 30)] k = None
                  \<longrightarrow> map_of ob k = map_of ([demo_flow_opts] ! 0) k"
    by blast
  from own have "map_of ob ''fdelay'' = Some (PInt 30)" by simp
  moreover from other have "map_of ob ''logLevel'' = Some (PStr ''info'')"
    by (simp add: demo_flow_opts_def)
  moreover have "map_of demo_flow_opts ''fdelay'' = Some (PInt 90)"
    by (simp add: demo_flow_opts_def)
  ultimately show ?thesis using run st by blast
qed


lemma demo_load_plain:
  "load_library (import_src demo_ext) ''sarra.flowcb.msg.fdelay.FDelay'' [demo_plain_opts] 0
     = Inr ([demo_plain_opts @ [(''fdelay'', PInt 60)]], \<lparr>self_o = 0\<rparr>)"
  by (simp add: load_library_def demo_rsplit import_src_def resolve_opt_def hasattr_def
      getattr_def setattr_def demo_plain_opts_def FDelay_init_def fdelay_config_def
      demo_ext_def)




section \<open>FDelay.__init__\<close>

text \<open>Neither \<open>fdelay\<close> nor \<open>msg_fdelay\<close> is set: the delay becomes 60.\<close>

lemma fdelay_config_default:
  assumes "map_of ob ''msg_fdelay'' = None" "map_of ob ''fdelay'' = None"
  shows "fdelay_config ext ob = Inr (setattr ob ''fdelay'' (PInt 60))"
  using assms
  by (simp add: fdelay_config_def hasattr_def getattr_def map_of_setattr)

text \<open>\<open>msg_fdelay\<close> is set: what \<open>fdelay\<close> held before does not matter.\<close>

lemma fdelay_config_msg_fdelay:
  assumes "map_of ob ''msg_fdelay'' = Some v"
  shows "fdelay_config ext (setattr ob ''fdelay'' x) = fdelay_config ext (setattr ob ''fdelay'' v)"
proof -
  have "setattr (setattr ob ''fdelay'' x) ''fdelay'' v = setattr (setattr ob ''fdelay'' v) ''fdelay'' v"
    by (simp add: setattr_def)
  with assms show ?thesis
    by (simp add: fdelay_config_def map_of_setattr)
qed

text \<open>The delay is a list that starts with an int: that int becomes the delay.\<close>

lemma fdelay_config_list_int:
  assumes "map_of ob ''msg_fdelay'' = None" "map_of ob ''fdelay'' = Some (PList (PInt n # l))"
  shows "fdelay_config ext ob = Inr (setattr ob ''fdelay'' (PInt n))"
  using assms
  by (simp add: fdelay_config_def hasattr_def getattr_def map_of_setattr index_list_def)

text \<open>
  Claim C10 on the code. The delay is configured as the list \<open>['30']\<close>. Line 39 takes the
  first element, the string \<open>'30'\<close>; line 42 then takes the first character of that string,
  and the delay is 3.0.
\<close>

theorem fdelay_list_of_string:
  "FDelay_init demo_ext [demo_plain_opts @ [(''fdelay'', PList [PStr ''30''])]] 0
     = Inr ([demo_plain_opts @ [(''fdelay'', PFloat 3)]], \<lparr>self_o = 0\<rparr>)"
  by (simp add: FDelay_init_def fdelay_config_def hasattr_def getattr_def setattr_def
      index_list_def float_of_str_def demo_plain_opts_def demo_ext_def)

section \<open>When FDelay.on_messages returns\<close>

lemma msg_shapeE:
  assumes "msg_shape m"
  obtains d i meth pt nd nf rp dl where "m = PDict d"
    "map_of d ''integrity'' = Some (PDict i)" "map_of i ''method'' = Some meth"
    "map_of d ''pubTime'' = Some pt" "map_of d ''new_dir'' = Some (PStr nd)"
    "map_of d ''new_file'' = Some nf" "map_of d ''relPath'' = Some rp"
    "map_of d ''_deleteOnPost'' = Some (PList dl)"
proof -
  from assms obtain d where m: "m = PDict d"
    by (cases m) (simp_all add: msg_shape_def)
  from assms m obtain x where x: "map_of d ''integrity'' = Some x"
    by (cases "map_of d ''integrity''") (simp_all add: msg_shape_def)
  from assms m x obtain i where i: "x = PDict i"
    by (cases x) (simp_all add: msg_shape_def)
  from assms m x i obtain meth where meth: "map_of i ''method'' = Some meth"
    by (auto simp: msg_shape_def)
  from assms m x i obtain y where y: "map_of d ''new_dir'' = Some y"
    by (cases "map_of d ''new_dir''") (simp_all add: msg_shape_def)
  from assms m x i y obtain nd where nd: "y = PStr nd"
    by (cases y) (simp_all add: msg_shape_def)
  from assms m x i y nd obtain z where z: "map_of d ''_deleteOnPost'' = Some z"
    by (cases "map_of d ''_deleteOnPost''") (simp_all add: msg_shape_def)
  from assms m x i y nd z obtain dl where dl: "z = PList dl"
    by (cases z) (simp_all add: msg_shape_def)
  from assms m x i y nd z obtain pt nf rp where
    "map_of d ''pubTime'' = Some pt" "map_of d ''new_file'' = Some nf"
    "map_of d ''relPath'' = Some rp"
    by (auto simp: msg_shape_def)
  with m x i meth y nd z dl show thesis
    by (intro that) simp_all
qed

lemma mark_not_retry_shape:
  assumes "msg_shape m"
  shows "\<exists>m'. mark_not_retry m = Inr m' \<and> msg_shape m'"
proof -
  from assms obtain d i meth pt nd nf rp dl where m: "m = PDict d"
    "map_of d ''integrity'' = Some (PDict i)" "map_of i ''method'' = Some meth"
    "map_of d ''pubTime'' = Some pt" "map_of d ''new_dir'' = Some (PStr nd)"
    "map_of d ''new_file'' = Some nf" "map_of d ''relPath'' = Some rp"
    "map_of d ''_deleteOnPost'' = Some (PList dl)"
    by (rule msg_shapeE)
  then show ?thesis
    by (simp add: mark_not_retry_def msg_shape_def update_conv')
qed

lemma fdelay_one_returns:
  assumes parse: "\<And>v. \<exists>t. timestr2flt ext v = Inr t"
    and join: "\<And>d f. \<exists>p. path_join ext d f = Inr p"
    and exists: "\<And>k f. \<exists>b. path_exists ext k f = Inr b"
    and stat: "\<And>k f. \<exists>t. stat_mtime ext k f = Inr t"
    and fd: "getattr opts ''fdelay'' = Inr fd" "num_of fd = Some x"
    and shape: "msg_shape (h a)"
  shows "\<exists>k' h' v. fdelay_one ext opts k h a = Inr (k', h', v)
           \<and> (h' = h \<or> (\<exists>m'. h' = h(a := m') \<and> msg_shape m'))"
proof -
  from shape obtain d i meth pt nd nf rp dl where m: "h a = PDict d"
    "map_of d ''integrity'' = Some (PDict i)" "map_of i ''method'' = Some meth"
    "map_of d ''pubTime'' = Some pt" "map_of d ''new_dir'' = Some (PStr nd)"
    "map_of d ''new_file'' = Some nf" "map_of d ''relPath'' = Some rp"
    "map_of d ''_deleteOnPost'' = Some (PList dl)"
    by (rule msg_shapeE)
  from mark_not_retry_shape[OF shape] obtain m' where
    m': "mark_not_retry (h a) = Inr m'" "msg_shape m'" by blast
  from parse obtain t where t: "timestr2flt ext pt = Inr t" by blast
  have lt: "\<And>r. \<exists>b. float_lt r fd = Inr b"
    using fd(2) by (cases fd) simp_all
  from lt obtain young where young: "float_lt (nowflt ext k - t) fd = Inr young" by blast
  have "\<exists>f. file_of ext (h a) = Inr f"
    using m join[of "PStr nd" nf] by (auto simp: file_of_def)
  then obtain f where f: "file_of ext (h a) = Inr f" by blast
  from exists obtain ex where ex: "path_exists ext (k + 1) f = Inr ex" by blast
  from stat obtain ft where ft: "stat_mtime ext (k + 2) f = Inr ft" by blast
  from lt obtain fresh where fresh: "float_lt (nowflt ext (k + 3) - ft) fd = Inr fresh" by blast
  show ?thesis
    using m(2,3,4) t fd(1) young m' f ex ft fresh
    by (cases "meth = PStr ''remove''"; cases young; cases ex; cases fresh)
       (auto simp: fdelay_one_def m(1))
qed

text \<open>
  When the parser, \<open>os.path.join\<close>, \<open>os.path.exists\<close> and \<open>os.stat\<close> do not raise, the delay is
  a number and every incoming message has the shape of the data model, the loop and
  \<open>FDelay.on_messages\<close> return.
\<close>

lemma fdelay_loop_returns:
  assumes parse: "\<And>v. \<exists>t. timestr2flt ext v = Inr t"
    and join: "\<And>d f. \<exists>p. path_join ext d f = Inr p"
    and exists: "\<And>k f. \<exists>b. path_exists ext k f = Inr b"
    and stat: "\<And>k f. \<exists>t. stat_mtime ext k f = Inr t"
    and fd: "getattr opts ''fdelay'' = Inr fd" "num_of fd = Some x"
    and shape: "\<forall>a \<in> set as. msg_shape (h a)"
  shows "\<exists>r. fdelay_loop ext opts as (k, h, wo) = Inr r"
  using shape
proof (induction as arbitrary: k h wo)
  case Nil
  then show ?case by simp
next
  case (Cons a as)
  from Cons.prems have "msg_shape (h a)" by simp
  from fdelay_one_returns[where h = h and a = a, OF parse join exists stat fd this, of k]
  obtain k' h' v where
    one: "fdelay_one ext opts k h a = Inr (k', h', v)"
    and h': "h' = h \<or> (\<exists>m'. h' = h(a := m') \<and> msg_shape m')"
    by blast
  from h' Cons.prems have "\<forall>b \<in> set as. msg_shape (h' b)" by auto
  from Cons.IH[OF this] obtain r where
    "fdelay_loop ext opts as (k', h', place v a wo) = Inr r" by blast
  with one show ?case by (cases r) auto
qed

lemma FDelay_on_messages_returns:
  assumes parse: "\<And>v. \<exists>t. timestr2flt ext v = Inr t"
    and join: "\<And>d f. \<exists>p. path_join ext d f = Inr p"
    and exists: "\<And>k f. \<exists>b. path_exists ext k f = Inr b"
    and stat: "\<And>k f. \<exists>t. stat_mtime ext k f = Inr t"
    and fd: "getattr opts ''fdelay'' = Inr fd" "num_of fd = Some x"
    and shape: "\<forall>a \<in> set (incoming w). msg_shape (h a)"
  shows "\<exists>r. FDelay_on_messages ext opts k h w = Inr r"
proof -
  from fdelay_loop_returns[where as = "incoming w" and h = h, OF parse join exists stat fd shape]
  obtain r where "fdelay_loop ext opts (incoming w) (k, h, w, []) = Inr r" by blast
  then show ?thesis
    by (cases r) (auto simp: FDelay_on_messages_def)
qed

section \<open>From a turn of the loop to the end of the batch\<close>

lemma bindE_assoc: "bindE (bindE r f) g = bindE r (\<lambda>x. bindE (f x) g)"
  by (cases r) simp_all

lemma fdelay_loop_append:
  "fdelay_loop ext opts (xs @ ys) st
     = bindE (fdelay_loop ext opts xs st) (fdelay_loop ext opts ys)"
proof (induction xs arbitrary: st)
  case Nil
  then show ?case by simp
next
  case (Cons x xs)
  obtain k h wo where st: "st = (k, h, wo)" by (cases st)
  show ?case
    by (cases "fdelay_one ext opts k h x") (auto simp: st Cons.IH split: prod.splits)
qed

text \<open>The turns of other messages leave a message where it is and as it is.\<close>

lemma fdelay_loop_frame:
  assumes "fdelay_loop ext opts as (k, h, w, out) = Inr (k', h', w', out')"
    and "a \<notin> set as"
  shows "h' a = h a \<and> (a \<in> set out' \<longleftrightarrow> a \<in> set out)
         \<and> (a \<in> set (failed w') \<longleftrightarrow> a \<in> set (failed w))
         \<and> (a \<in> set (rejected w') \<longleftrightarrow> a \<in> set (rejected w))"
  using assms
proof (induction as arbitrary: k h w out)
  case Nil
  then show ?case by simp
next
  case (Cons b bs)
  from Cons.prems(1) obtain k1 h1 v where one: "fdelay_one ext opts k h b = Inr (k1, h1, v)"
    and rest: "fdelay_loop ext opts bs (k1, h1, place v b (w, out)) = Inr (k', h', w', out')"
    by (auto simp: bindE_eq_Inr)
  obtain w1 out1 where pl: "place v b (w, out) = (w1, out1)"
    by (cases "place v b (w, out)")
  from Cons.prems(2) have ne: "a \<noteq> b" and nin: "a \<notin> set bs" by auto
  from fdelay_one_frame[OF one ne] have h1: "h1 a = h a" .
  from pl ne have "(a \<in> set out1 \<longleftrightarrow> a \<in> set out)
         \<and> (a \<in> set (failed w1) \<longleftrightarrow> a \<in> set (failed w))
         \<and> (a \<in> set (rejected w1) \<longleftrightarrow> a \<in> set (rejected w))"
    by (cases v) auto
  with Cons.IH[OF rest[unfolded pl] nin] h1 show ?case by simp
qed

text \<open>
  The list a message is appended to in its turn is the partition it is in when the batch has
  run to its end, with the content its turn gave it, provided the message does not come a
  second time later in \<open>incoming\<close>.
\<close>

lemma fdelay_batch_turn:
  assumes inc: "incoming w = pre @ a # post" and post: "a \<notin> set post"
    and pre: "fdelay_loop ext opts pre (k, h, w, []) = Inr (k1, h1, w1, out1)"
    and one: "fdelay_one ext opts k1 h1 a = Inr (k2, h2, v)"
    and run: "FDelay_on_messages ext opts k h w = Inr (k', h', w')"
  shows "h' a = h2 a
         \<and> (v = ToRejected \<longrightarrow> a \<in> set (rejected w'))
         \<and> (v = ToFailed \<longrightarrow> a \<in> set (failed w'))
         \<and> (v = ToOutgoing \<longrightarrow> a \<in> set (incoming w'))"
proof -
  from run obtain w2 out where
    loop: "fdelay_loop ext opts (incoming w) (k, h, w, []) = Inr (k', h', w2, out)"
    and w': "w' = w2\<lparr>incoming := out\<rparr>"
    by (auto simp: FDelay_on_messages_def bindE_eq_Inr)
  obtain w3 out3 where pl: "place v a (w1, out1) = (w3, out3)"
    by (cases "place v a (w1, out1)")
  from loop have rest: "fdelay_loop ext opts post (k2, h2, w3, out3) = Inr (k', h', w2, out)"
    using pre one pl
    by (simp add: inc fdelay_loop_append)
  from pl have placed: "(v = ToRejected \<longrightarrow> a \<in> set (rejected w3))
         \<and> (v = ToFailed \<longrightarrow> a \<in> set (failed w3))
         \<and> (v = ToOutgoing \<longrightarrow> a \<in> set out3)"
    by (cases v) auto
  from fdelay_loop_frame[OF rest post] placed w' show ?thesis by simp
qed

end
